theory Spec2Isabelle
  imports Complex_Main
begin

text \<open>
  The schedex node of \<open>index.js\<close>: two events, on and off, each fired once a day at a
  clock time or at a solar time, on the weekdays a mask selects; messages fire an event by
  hand or change the configuration. The functions of the source keep their names; what
  they read from outside (the clock, \<open>Math.random\<close>, SunCalc) is passed in, what they
  change (the events, the timers, the messages and the status sent to the runtime) is a
  state that is passed on. Line numbers are those of \<open>index.js\<close>.
\<close>

section \<open>Moments\<close>

text \<open>
  The node computes with moment.js values. A moment is modelled by the number of
  milliseconds its local wall clock shows since 1970-01-01 00:00 (a Thursday). Every day
  has 86400000 ms (no daylight-saving change), all moments are valid dates, and the
  default locale is used, where \<open>weekday()\<close> counts from Sunday = 0.
\<close>

type_synonym moment = int

abbreviation msPerSecond :: int where "msPerSecond \<equiv> 1000"
abbreviation msPerMinute :: int where "msPerMinute \<equiv> 60000"
abbreviation msPerHour :: int where "msPerHour \<equiv> 3600000"
abbreviation msPerDay :: int where "msPerDay \<equiv> 86400000"

text \<open>\<open>m.hour(h)\<close>: the hour field is replaced; a value above 23 runs over into
  the following days, as \<open>Date.setHours\<close> does.\<close>

definition hour :: "moment \<Rightarrow> nat \<Rightarrow> moment" where
  "hour m h = m - ((m mod msPerDay) div msPerHour) * msPerHour + int h * msPerHour"

text \<open>\<open>m.minute(n)\<close>, likewise.\<close>

definition minute :: "moment \<Rightarrow> nat \<Rightarrow> moment" where
  "minute m n = m - ((m mod msPerHour) div msPerMinute) * msPerMinute + int n * msPerMinute"

text \<open>\<open>m.seconds(0)\<close>: the seconds field becomes 0; the milliseconds stay.\<close>

definition seconds0 :: "moment \<Rightarrow> moment" where
  "seconds0 m = m - ((m mod msPerMinute) div msPerSecond) * msPerSecond"

text \<open>\<open>m.weekday()\<close>: 0 = Sunday, ..., 6 = Saturday.\<close>

definition weekday :: "moment \<Rightarrow> nat" where
  "weekday m = nat ((m div msPerDay + 4) mod 7)"

text \<open>\<open>m.add(n, 'day')\<close> and \<open>m.add(a, 'minutes')\<close>. A fractional number of
  minutes is added as milliseconds and the time value of the date is cut to a whole
  number of milliseconds, which rounds down from 1970 on.\<close>

definition addDays :: "moment \<Rightarrow> int \<Rightarrow> moment" where
  "addDays m n = m + n * msPerDay"

definition addMinutes :: "moment \<Rightarrow> real \<Rightarrow> moment" where
  "addMinutes m a = \<lfloor>of_int m + a * 60000\<rfloor>"

definition isAfter :: "moment \<Rightarrow> moment \<Rightarrow> bool" where
  "isAfter a b = (b < a)"

definition isBefore :: "moment \<Rightarrow> moment \<Rightarrow> bool" where
  "isBefore a b = (a < b)"

definition diff :: "moment \<Rightarrow> moment \<Rightarrow> int" where
  "diff a b = a - b"

section \<open>The clock pattern\<close>

text \<open>
  \<open>new RegExp(/(\d+):(\d+)/).exec(event.time)\<close>: the pattern is not anchored, so the
  leftmost place of the string where one or more digits, a colon and one or more digits
  stand is matched; both groups are greedy.
\<close>

definition isDigit :: "char \<Rightarrow> bool" where
  "isDigit c = (c \<in> set ''0123456789'')"

definition matchHere :: "string \<Rightarrow> (string \<times> string) option" where
  "matchHere s =
     (let h = takeWhile isDigit s; r = dropWhile isDigit s in
      if h = [] then None
      else (case r of
              [] \<Rightarrow> None
            | c # r' \<Rightarrow>
                if c = CHR '':'' \<and> takeWhile isDigit r' \<noteq> []
                then Some (h, takeWhile isDigit r') else None))"

fun execClock :: "string \<Rightarrow> (string \<times> string) option" where
  "execClock [] = None"
| "execClock (c # cs) =
     (case matchHere (c # cs) of Some g \<Rightarrow> Some g | None \<Rightarrow> execClock cs)"

text \<open>The number a string of digits is converted to by \<open>hour\<close> and \<open>minute\<close>.\<close>

definition digitVal :: "char \<Rightarrow> nat" where
  "digitVal c = of_char c - 48"

definition toNat :: "string \<Rightarrow> nat" where
  "toNat ds = foldl (\<lambda>n c. 10 * n + digitVal c) 0 ds"

section \<open>Events and the node\<close>

text \<open>A JavaScript number as far as the node needs it: a real, or NaN.\<close>

datatype number = Num real | NaN

datatype ename = On | Off

fun inverse_of :: "ename \<Rightarrow> ename" where
  "inverse_of On = Off"
| "inverse_of Off = On"

record event =
  name :: string
  shape :: string
  time :: string
  topic :: string
  payload :: string
  offset :: number
  randomoffset :: bool
  moment :: "moment option"
  timeout :: "nat option"

text \<open>A status text is a concatenation; \<open>Formatted m\<close> stands for
  \<open>m.format('YYYY-MM-DD HH:mm')\<close>.\<close>

datatype piece = Str string | Formatted moment

record status =
  fill :: string
  dot :: string
  pieces :: "piece list"

text \<open>
  The state of one node: \<open>config.suspended\<close>, the \<open>weekdays\<close> array, the two
  events, the timers that are armed (handle, event whose callback runs, delay), the
  messages passed to \<open>node.send\<close> and the last status passed to \<open>node.status\<close>.
  \<open>bootstraps\<close> counts the calls of \<open>bootstrap\<close>; nothing reads it.
\<close>

record node =
  suspended :: bool
  weekdays :: "bool list"
  on_event :: event
  off_event :: event
  timers :: "nat \<rightharpoonup> ename \<times> int"
  next_timer :: nat
  sent :: "(string \<times> string) list"
  last_status :: "status option"
  bootstraps :: nat

fun event_of :: "ename \<Rightarrow> node \<Rightarrow> event" where
  "event_of On st = on_event st"
| "event_of Off st = off_event st"

fun set_event :: "ename \<Rightarrow> event \<Rightarrow> node \<Rightarrow> node" where
  "set_event On ev st = st\<lparr>on_event := ev\<rparr>"
| "set_event Off ev st = st\<lparr>off_event := ev\<rparr>"

datatype error = TypeError

text \<open>A call returns, or throws with the state as changed so far.\<close>

datatype outcome = Returned node | Threw error node

fun state_of :: "outcome \<Rightarrow> node" where
  "state_of (Returned st) = st"
| "state_of (Threw e st) = st"

text \<open>Timers: \<open>setTimeout\<close> hands out a fresh handle, \<open>clearTimeout\<close> of
  \<open>undefined\<close> does nothing.\<close>

definition setTimeout :: "ename \<Rightarrow> int \<Rightarrow> node \<Rightarrow> nat \<times> node" where
  "setTimeout e delay st =
     (next_timer st,
      st\<lparr>timers := (timers st)(next_timer st \<mapsto> (e, delay)), next_timer := Suc (next_timer st)\<rparr>)"

definition clearTimeout :: "nat option \<Rightarrow> node \<Rightarrow> node" where
  "clearTimeout h st = (case h of None \<Rightarrow> st | Some k \<Rightarrow> st\<lparr>timers := (timers st)(k := None)\<rparr>)"

section \<open>schedule\<close>

text \<open>
  What one call of \<open>schedule\<close> reads from outside: \<open>moment()\<close> in line 131,
  \<open>moment()\<close> in line 135 or \<open>new Date()\<close> in line 137, and \<open>Math.random()\<close>.
  \<open>SunCalc.getTimes(date, config.lat, config.lon)[name]\<close> is a parameter: the moment of
  the date found under the name, or \<open>None\<close> when the name is no key. A value that is
  no valid date is not modelled.
\<close>

record reads =
  now_read :: moment
  today_read :: moment
  random_read :: real

type_synonym suncalc = "moment \<Rightarrow> string \<Rightarrow> moment option"

text \<open>Lines 132 to 142: the value of \<open>event.moment\<close> after the time was resolved.
  When the name is no key of the solar times, \<open>event.moment\<close> keeps what it held.\<close>

definition resolve :: "suncalc \<Rightarrow> moment \<Rightarrow> string \<Rightarrow> moment option \<Rightarrow> moment option" where
  "resolve sun today tm prev =
     (case execClock tm of
        Some (h, mi) \<Rightarrow> Some (minute (hour today (toNat h)) (toNat mi))
      | None \<Rightarrow> (case sun today tm of Some d \<Rightarrow> Some d | None \<Rightarrow> prev))"

text \<open>Lines 145 to 149: the adjustment, when \<open>event.offset\<close> is truthy.\<close>

definition adjustment :: "event \<Rightarrow> real \<Rightarrow> real option" where
  "adjustment ev r =
     (case offset ev of
        NaN \<Rightarrow> None
      | Num x \<Rightarrow> if x = 0 then None else Some (if randomoffset ev then x * r else x))"

definition applyOffset :: "event \<Rightarrow> real \<Rightarrow> moment \<Rightarrow> moment" where
  "applyOffset ev r m = (case adjustment ev r of None \<Rightarrow> m | Some a \<Rightarrow> addMinutes m a)"

text \<open>Lines 154 to 156. An index outside the array reads \<open>undefined\<close>, which is
  falsy. The second component counts the passes through the body.\<close>

definition selected :: "bool list \<Rightarrow> nat \<Rightarrow> bool" where
  "selected wd i = (i < length wd \<and> wd ! i)"

partial_function (option) weekdayLoop :: "bool list \<Rightarrow> moment \<Rightarrow> nat \<Rightarrow> (moment \<times> nat) option" where
  "weekdayLoop wd m n =
     (if \<not> selected wd (weekday m) then weekdayLoop wd (addDays m 1) (Suc n) else Some (m, n))"

declare weekdayLoop.simps [code]

text \<open>Lines 158 to 160.\<close>

definition rollover :: "bool \<Rightarrow> moment \<Rightarrow> moment \<Rightarrow> moment" where
  "rollover isInitial now m =
     (if \<not> isInitial \<or> isInitial \<and> isAfter now m then addDays m 1 else m)"

text \<open>Lines 131 to 156: the moment before the rollover. \<open>None\<close>: the loop does not
  end; \<open>Some None\<close>: \<open>event.moment\<close> is undefined after line 142.\<close>

definition candidate :: "suncalc \<Rightarrow> reads \<Rightarrow> bool list \<Rightarrow> event \<Rightarrow> moment option option" where
  "candidate sun rd wd ev =
     (case resolve sun (today_read rd) (time ev) (moment ev) of
        None \<Rightarrow> Some None
      | Some m \<Rightarrow>
          (case weekdayLoop wd (applyOffset ev (random_read rd) (seconds0 m)) 0 of
             None \<Rightarrow> None
           | Some (m', n) \<Rightarrow> Some (Some m')))"

text \<open>Lines 131 to 160: the moment \<open>schedule\<close> leaves in \<open>event.moment\<close>.\<close>

definition computeNext ::
    "suncalc \<Rightarrow> reads \<Rightarrow> bool list \<Rightarrow> event \<Rightarrow> bool \<Rightarrow> moment option option" where
  "computeNext sun rd wd ev isInitial =
     (case candidate sun rd wd ev of
        None \<Rightarrow> None
      | Some None \<Rightarrow> Some None
      | Some (Some c) \<Rightarrow> Some (Some (rollover isInitial (now_read rd) c)))"

text \<open>Lines 130 to 169.\<close>

definition schedule :: "suncalc \<Rightarrow> reads \<Rightarrow> ename \<Rightarrow> bool \<Rightarrow> node \<Rightarrow> node option" where
  "schedule sun rd e isInitial st =
     (let ev = event_of e st in
      case computeNext sun rd (weekdays st) ev isInitial of
        None \<Rightarrow> None
      | Some None \<Rightarrow>
          Some (st\<lparr>last_status :=
                  Some \<lparr>fill = ''red'', dot = ''dot'', pieces = [Str ''Invalid time: '', Str (time ev)]\<rparr>\<rparr>)
      | Some (Some m) \<Rightarrow>
          (let delay = diff m (now_read rd);
               st1 = (if timeout ev \<noteq> None then clearTimeout (timeout ev) st else st);
               (h, st2) = setTimeout e delay st1
           in Some (set_event e (ev\<lparr>moment := Some m, timeout := Some h\<rparr>) st2)))"

section \<open>send, the timer callback, suspend, resume, bootstrap\<close>

text \<open>Lines 121 to 128. The message goes out first; the status text is built next, and
  \<open>event.inverse.moment.format(fmt)\<close> throws a TypeError when the moment of the inverse
  event is \<open>undefined\<close>.\<close>

definition send :: "ename \<Rightarrow> bool \<Rightarrow> node \<Rightarrow> outcome" where
  "send e manual st =
     (let ev = event_of e st;
          st1 = st\<lparr>sent := sent st @ [(topic ev, payload ev)]\<rparr>;
          mode = Str (if manual then '' manual'' else '' auto'')
      in if suspended st1
         then Returned (st1\<lparr>last_status := Some
                 \<lparr>fill = (if manual then ''blue'' else ''green''), dot = shape ev,
                  pieces = [Str (name ev), mode, Str '' - scheduling suspended'']\<rparr>\<rparr>)
         else (case moment (event_of (inverse_of e) st1) of
                 None \<Rightarrow> Threw TypeError st1
               | Some m \<Rightarrow>
                   Returned (st1\<lparr>last_status := Some
                     \<lparr>fill = (if manual then ''blue'' else ''green''), dot = shape ev,
                      pieces = [Str (name ev), mode, Str '' until '', Formatted m]\<rparr>\<rparr>)))"



fun indexOf :: "'a list \<Rightarrow> 'a \<Rightarrow> int" where
  "indexOf [] x = - 1"
| "indexOf (y # ys) x =
     (if y = x then 0 else (let i = indexOf ys x in if i = - 1 then - 1 else i + 1))"

text \<open>Lines 171 to 175.\<close>

definition suspend :: "node \<Rightarrow> node" where
  "suspend st =
     (let st1 = clearTimeout (timeout (on_event st)) st;
          st2 = clearTimeout (timeout (off_event st1)) st1
      in st2\<lparr>last_status := Some
           \<lparr>fill = ''grey'', dot = ''dot'',
            pieces = [Str ''Scheduling suspended '',
                      Str (if indexOf (weekdays st2) True = - 1 then ''(no weekdays selected) '' else []),
                      Str ''- manual mode only'']\<rparr>\<rparr>)"

text \<open>Lines 177 to 184. \<open>events.on.moment.isBefore\<close> throws when \<open>events.on.moment\<close>
  is undefined; when only \<open>events.off.moment\<close> is undefined, \<open>format\<close> is called on
  it in the message, whichever event comes first.\<close>

definition resume :: "suncalc \<Rightarrow> reads \<Rightarrow> reads \<Rightarrow> node \<Rightarrow> outcome option" where
  "resume sun rd1 rd2 st =
     (case schedule sun rd1 On True st of
        None \<Rightarrow> None
      | Some st1 \<Rightarrow>
          (case schedule sun rd2 Off True st1 of
             None \<Rightarrow> None
           | Some st2 \<Rightarrow>
               Some (case moment (on_event st2) of
                       None \<Rightarrow> Threw TypeError st2
                     | Some mon \<Rightarrow>
                         (case moment (off_event st2) of
                            None \<Rightarrow> Threw TypeError st2
                          | Some moff \<Rightarrow>
                              (let firstEvent = (if isBefore mon moff then On else Off);
                                   ev1 = event_of firstEvent st2;
                                   ev2 = event_of (inverse_of firstEvent) st2
                               in Returned (st2\<lparr>last_status := Some
                                    \<lparr>fill = ''yellow'', dot = ''dot'',
                                     pieces = [Str (name ev1), Str '' '',
                                               Formatted (if firstEvent = On then mon else moff),
                                               Str '', '', Str (name ev2), Str '' '',
                                               Formatted (if firstEvent = On then moff else mon)]\<rparr>\<rparr>))))))"

text \<open>Lines 186 to 192.\<close>

definition bootstrap :: "suncalc \<Rightarrow> reads \<Rightarrow> reads \<Rightarrow> node \<Rightarrow> outcome option" where
  "bootstrap sun rd1 rd2 st =
     (let st0 = st\<lparr>bootstraps := Suc (bootstraps st)\<rparr> in
      if suspended st0 \<or> indexOf (weekdays st0) True = - 1
      then Some (Returned (suspend st0))
      else resume sun rd1 rd2 st0)"

section \<open>Letters\<close>

definition upperLetters :: string where "upperLetters = ''ABCDEFGHIJKLMNOPQRSTUVWXYZ''"
definition lowerLetters :: string where "lowerLetters = ''abcdefghijklmnopqrstuvwxyz''"

definition toLowerCase :: "string \<Rightarrow> string" where
  "toLowerCase s =
     map (\<lambda>c. case map_of (zip upperLetters lowerLetters) c of Some l \<Rightarrow> l | None \<Rightarrow> c) s"

definition toUpperCase :: "string \<Rightarrow> string" where
  "toUpperCase s =
     map (\<lambda>c. case map_of (zip lowerLetters upperLetters) c of Some u \<Rightarrow> u | None \<Rightarrow> c) s"

section \<open>The input handler\<close>

text \<open>
  The values a message can hold for a property, and the conversions the handler applies
  to them. \<open>Number\<close> of a string and \<open>String\<close> of a number are JavaScript's own and are
  parameters.
\<close>

datatype jsval = JString string | JNumber number | JBool bool | JUndefined | JNull

record builtins =
  numberToString :: "number \<Rightarrow> string"
  stringToNumber :: "string \<Rightarrow> number"

fun String :: "builtins \<Rightarrow> jsval \<Rightarrow> string" where
  "String js (JString s) = s"
| "String js (JNumber n) = numberToString js n"
| "String js (JBool b) = (if b then ''true'' else ''false'')"
| "String js JUndefined = ''undefined''"
| "String js JNull = ''null''"

fun Number :: "builtins \<Rightarrow> jsval \<Rightarrow> number" where
  "Number js (JString s) = stringToNumber js s"
| "Number js (JNumber n) = n"
| "Number js (JBool b) = Num (if b then 1 else 0)"
| "Number js JUndefined = NaN"
| "Number js JNull = Num 0"

text \<open>Lines 204 to 206: \<open>(val + '').toLowerCase() === 'true'\<close>.\<close>

definition toBoolean :: "builtins \<Rightarrow> jsval \<Rightarrow> bool" where
  "toBoolean js val = (toLowerCase (String js val) = ''true'')"

text \<open>\<open>!!val\<close>.\<close>

fun truthy :: "jsval \<Rightarrow> bool" where
  "truthy (JString s) = (s \<noteq> [])"
| "truthy (JNumber n) = (case n of NaN \<Rightarrow> False | Num x \<Rightarrow> x \<noteq> 0)"
| "truthy (JBool b) = b"
| "truthy JUndefined = False"
| "truthy JNull = False"

text \<open>\<open>a === b\<close>: NaN equals nothing, itself included.\<close>

fun strictEq :: "jsval \<Rightarrow> jsval \<Rightarrow> bool" where
  "strictEq (JString a) (JString b) = (a = b)"
| "strictEq (JNumber a) (JNumber b) = (case a of NaN \<Rightarrow> False | Num x \<Rightarrow> b = Num x)"
| "strictEq (JBool a) (JBool b) = (a = b)"
| "strictEq JUndefined JUndefined = True"
| "strictEq JNull JNull = True"
| "strictEq a b = False"

text \<open>Lines 194 to 202: the properties of an event a message can set, in the order of
  \<open>eachProp\<close>, each with its type constructor.\<close>

datatype msgprop = Time | Topic | Payload | Offset | Randomoffset

fun eventName :: "ename \<Rightarrow> string" where
  "eventName On = ''on''"
| "eventName Off = ''off''"

fun msgProperty :: "msgprop \<Rightarrow> string" where
  "msgProperty Time = ''time''"
| "msgProperty Topic = ''topic''"
| "msgProperty Payload = ''payload''"
| "msgProperty Offset = ''offset''"
| "msgProperty Randomoffset = ''randomoffset''"

definition eachProp :: "(ename \<Rightarrow> msgprop \<Rightarrow> 'a \<Rightarrow> 'a) \<Rightarrow> 'a \<Rightarrow> 'a" where
  "eachProp cb a =
     fold (\<lambda>e. cb e Randomoffset \<circ> cb e Offset \<circ> cb e Payload \<circ> cb e Topic \<circ> cb e Time)
       [On, Off] a"

text \<open>\<open>events[eventName][msgProperty]\<close>, read and written; the value written is
  \<open>typeConstructor(raw)\<close>.\<close>

fun getProp :: "msgprop \<Rightarrow> event \<Rightarrow> jsval" where
  "getProp Time ev = JString (time ev)"
| "getProp Topic ev = JString (topic ev)"
| "getProp Payload ev = JString (payload ev)"
| "getProp Offset ev = JNumber (offset ev)"
| "getProp Randomoffset ev = JBool (randomoffset ev)"

fun assign :: "builtins \<Rightarrow> msgprop \<Rightarrow> jsval \<Rightarrow> event \<Rightarrow> event" where
  "assign js Time raw ev = ev\<lparr>time := String js raw\<rparr>"
| "assign js Topic raw ev = ev\<lparr>topic := String js raw\<rparr>"
| "assign js Payload raw ev = ev\<lparr>payload := String js raw\<rparr>"
| "assign js Offset raw ev = ev\<lparr>offset := Number js raw\<rparr>"
| "assign js Randomoffset raw ev = ev\<lparr>randomoffset := toBoolean js raw\<rparr>"

text \<open>
  The patterns of lines 63 and 70, \<open>.*\<close> followed by a word, \<open>\s+\<close> and \<open>(\S+)\<close>, on
  strings of ASCII characters. \<open>valueAfter p s\<close> is the group when the word \<open>p\<close>, white
  space and a value stand at the start of \<open>s\<close>. The dot matches no line end, and \<open>.*\<close> is
  greedy: the match starts in the first line that has a place where the rest matches and
  takes the last such place of that line.
\<close>

definition isSpace :: "char \<Rightarrow> bool" where
  "isSpace c = (c \<in> set [CHR '' '', CHR 0x09, CHR 0x0A, CHR 0x0B, CHR 0x0C, CHR 0x0D])"

definition isLineEnd :: "char \<Rightarrow> bool" where
  "isLineEnd c = (c = CHR 0x0A \<or> c = CHR 0x0D)"

definition startsWith :: "string \<Rightarrow> string \<Rightarrow> bool" where
  "startsWith s p = (take (length p) s = p)"

definition valueAfter :: "string \<Rightarrow> string \<Rightarrow> string option" where
  "valueAfter p s =
     (let r = drop (length p) s;
          v = takeWhile (\<lambda>c. \<not> isSpace c) (dropWhile isSpace r)
      in if startsWith s p \<and> takeWhile isSpace r \<noteq> [] \<and> v \<noteq> [] then Some v else None)"

fun scan :: "string \<Rightarrow> string \<Rightarrow> string option \<Rightarrow> string option" where
  "scan p [] best = (case valueAfter p [] of Some v \<Rightarrow> Some v | None \<Rightarrow> best)"
| "scan p (c # cs) best =
     (let best' = (case valueAfter p (c # cs) of Some v \<Rightarrow> Some v | None \<Rightarrow> best) in
      if isLineEnd c then (case best' of Some v \<Rightarrow> Some v | None \<Rightarrow> scan p cs None)
      else scan p cs best')"

definition execProp :: "string \<Rightarrow> string \<Rightarrow> string option" where
  "execProp p s = scan p s None"

text \<open>\<open>s.indexOf(p) !== -1\<close>.\<close>

fun hasSubstring :: "string \<Rightarrow> string \<Rightarrow> bool" where
  "hasSubstring [] p = (p = [])"
| "hasSubstring (c # cs) p = (startsWith (c # cs) p \<or> hasSubstring cs p)"

text \<open>The local variables of the handler and the node it works on.\<close>

record locals =
  handled :: bool
  requiresBootstrap :: bool
  cur :: node

text \<open>Lines 62 to 66 and 81 to 84, with the new value of the flag already computed.\<close>

definition setSuspended :: "bool \<Rightarrow> locals \<Rightarrow> locals" where
  "setSuspended b l =
     (let previous = suspended (cur l);
          st' = (cur l)\<lparr>suspended := b\<rparr>
      in l\<lparr>handled := True,
           requiresBootstrap := (requiresBootstrap l \<or> previous \<noteq> suspended st'),
           cur := st'\<rparr>)"

text \<open>Lines 72 to 75 and 89 to 92.\<close>

definition setProp :: "builtins \<Rightarrow> ename \<Rightarrow> msgprop \<Rightarrow> jsval \<Rightarrow> locals \<Rightarrow> locals" where
  "setProp js e p raw l =
     (let previous = getProp p (event_of e (cur l));
          st' = set_event e (assign js p raw (event_of e (cur l))) (cur l)
      in l\<lparr>handled := True,
           requiresBootstrap :=
             (requiresBootstrap l \<or> \<not> strictEq previous (getProp p (event_of e st'))),
           cur := st'\<rparr>)"

text \<open>The callbacks passed to \<open>eachProp\<close> in lines 68 and 86.\<close>

definition stringCallback :: "builtins \<Rightarrow> string \<Rightarrow> ename \<Rightarrow> msgprop \<Rightarrow> locals \<Rightarrow> locals" where
  "stringCallback js s e p l =
     (case execProp (eventName e @ msgProperty p) s of
        None \<Rightarrow> l
      | Some v \<Rightarrow> setProp js e p (JString v) l)"

definition objectCallback ::
    "builtins \<Rightarrow> (string \<rightharpoonup> jsval) \<Rightarrow> ename \<Rightarrow> msgprop \<Rightarrow> locals \<Rightarrow> locals" where
  "objectCallback js obj e p l =
     (case obj (eventName e @ msgProperty p) of
        None \<Rightarrow> l
      | Some raw \<Rightarrow> setProp js e p raw l)"

text \<open>Lines 96 to 100.\<close>

definition finish :: "suncalc \<Rightarrow> reads \<Rightarrow> reads \<Rightarrow> locals \<Rightarrow> outcome option" where
  "finish sun rd1 rd2 l =
     (if \<not> handled l
      then Some (Returned ((cur l)\<lparr>last_status := Some
             \<lparr>fill = ''red'', dot = ''dot'', pieces = [Str ''Unsupported input'']\<rparr>\<rparr>))
      else if requiresBootstrap l then bootstrap sun rd1 rd2 (cur l)
      else Some (Returned (cur l)))"

text \<open>
  Lines 50 to 101. The payload of a message is a string or an object with own
  properties. In line 65 \<open>match[1]\<close> throws a TypeError when the payload holds the word
  \<open>suspended\<close> and the pattern of line 63 does not match. The two readings serve the two
  calls of \<open>schedule\<close> in \<open>resume\<close>.
\<close>

datatype msg_payload = PString string | PObject "string \<rightharpoonup> jsval"

definition input ::
    "builtins \<Rightarrow> suncalc \<Rightarrow> reads \<Rightarrow> reads \<Rightarrow> msg_payload \<Rightarrow> node \<Rightarrow> outcome option" where
  "input js sun rd1 rd2 pl st =
     (let l0 = \<lparr>handled = False, requiresBootstrap = False, cur = st\<rparr> in
      case pl of
        PString s \<Rightarrow>
          if s = ''on'' then Some (send On True st)
          else if s = ''off'' then Some (send Off True st)
          else if hasSubstring s ''suspended''
          then (case execProp ''suspended'' s of
                  None \<Rightarrow> Some (Threw TypeError st)
                | Some v \<Rightarrow>
                    finish sun rd1 rd2
                      (eachProp (stringCallback js s) (setSuspended (toBoolean js (JString v)) l0)))
          else finish sun rd1 rd2 (eachProp (stringCallback js s) l0)
      | PObject obj \<Rightarrow>
          finish sun rd1 rd2
            (eachProp (objectCallback js obj)
               (case obj ''suspended'' of
                  None \<Rightarrow> l0
                | Some raw \<Rightarrow> setSuspended (truthy raw) l0)))"

section \<open>What a message asks for\<close>













section \<open>Setting up a node\<close>

text \<open>Lines 105 to 119: the event holds the configured values whose keys start with the
  event's name; \<open>moment\<close> and \<open>timeout\<close> are undefined. The configuration is taken to
  hold a string for the time, the topic and the payload, a number for the offset and a
  boolean for the random offset, the types the handler of line 50 writes.\<close>

definition setupEvent ::
    "string \<Rightarrow> string \<Rightarrow> string \<Rightarrow> string \<Rightarrow> string \<Rightarrow> number \<Rightarrow> bool \<Rightarrow> event" where
  "setupEvent evName shp tm tp pl off roff =
     \<lparr>name = toUpperCase evName, shape = shp, time = tm, topic = tp, payload = pl,
      offset = off, randomoffset = roff, moment = None, timeout = None\<rparr>"

text \<open>The node when line 208 is reached: no timer, no message, no status yet.\<close>

definition newNode :: "bool \<Rightarrow> bool list \<Rightarrow> event \<Rightarrow> event \<Rightarrow> node" where
  "newNode susp wd evOn evOff =
     \<lparr>suspended = susp, weekdays = wd, on_event = evOn, off_event = evOff,
      timers = Map.empty, next_timer = 1, sent = [], last_status = None, bootstraps = 0\<rparr>"

text \<open>Two events and masks for the examples below: on at 08:00, off at 20:00.\<close>

definition exampleOn :: event where
  "exampleOn = setupEvent ''on'' ''dot'' ''08:00'' ''lamp'' ''1'' (Num 0) False"

definition exampleOff :: event where
  "exampleOff = setupEvent ''off'' ''ring'' ''20:00'' ''lamp'' ''0'' (Num 0) False"

definition noWeekday :: "bool list" where
  "noWeekday = [False, False, False, False, False, False, False]"

definition mondayOnly :: "bool list" where
  "mondayOnly = [False, True, False, False, False, False, False]"

definition everyDay :: "bool list" where
  "everyDay = [True, True, True, True, True, True, True]"

text \<open>A place where SunCalc knows no time at all, and some readings of the clock:
  2024-01-01 was a Monday.\<close>

definition noSolarTimes :: suncalc where
  "noSolarTimes d n = None"

definition readsAt :: "moment \<Rightarrow> reads" where
  "readsAt t = \<lparr>now_read = t, today_read = t, random_read = 0\<rparr>"

definition monday0700 :: moment where
  "monday0700 = 1704067200000 + 7 * msPerHour"

definition monday0900 :: moment where
  "monday0900 = 1704067200000 + 9 * msPerHour"

definition monday0800 :: moment where
  "monday0800 = 1704067200000 + 8 * msPerHour"

definition tuesday0800 :: moment where
  "tuesday0800 = 1704067200000 + msPerDay + 8 * msPerHour"

text \<open>An on event with a random offset of 30 minutes, and the node \<open>bootstrap\<close> leaves
  on Monday at 07:00 when the draw for it is 1/2: the on timer is armed for 08:15.\<close>

definition monday0815 :: moment where
  "monday0815 = 1704067200000 + 8 * msPerHour + 15 * msPerMinute"

definition monday2000 :: moment where
  "monday2000 = 1704067200000 + 20 * msPerHour"

definition randomOn :: event where
  "randomOn = setupEvent ''on'' ''dot'' ''08:00'' ''lamp'' ''1'' (Num 30) True"

definition armedRandom :: node where
  "armedRandom =
     \<lparr>suspended = False, weekdays = everyDay,
      on_event = randomOn\<lparr>moment := Some monday0815, timeout := Some 1\<rparr>,
      off_event = exampleOff\<lparr>moment := Some monday2000, timeout := Some 2\<rparr>,
      timers = [1 \<mapsto> (On, 75 * msPerMinute), 2 \<mapsto> (Off, 13 * msPerHour)],
      next_timer = 3, sent = [],
      last_status = Some \<lparr>fill = ''yellow'', dot = ''dot'',
        pieces = [Str ''ON'', Str '' '', Formatted monday0815, Str '', '', Str ''OFF'', Str '' '',
                  Formatted monday2000]\<rparr>,
      bootstraps = 1\<rparr>"

text \<open>Conversions for the examples. They agree with JavaScript's where the examples use
  them: a string of digits is the number it writes, a string of letters, as \<open>abc\<close>, is
  NaN, and NaN is written \<open>NaN\<close>. No example writes another number as a string.\<close>

definition exampleBuiltins :: builtins where
  "exampleBuiltins =
     \<lparr>numberToString = (\<lambda>n. ''NaN''),
      stringToNumber = (\<lambda>s. if s \<noteq> [] \<and> list_all isDigit s then Num (real (toNat s)) else NaN)\<rparr>"



section \<open>Properties of the moments and of the weekday loop\<close>

lemma inverse_of_inverse_of: "inverse_of (inverse_of e) = e"
  by (cases e) simp_all








text \<open>Without a selected weekday the loop does not end.\<close>

lemma weekdayLoop_Some_selected:
  assumes "weekdayLoop wd m n = Some y"
  shows "\<exists>i. selected wd i"
proof (rule weekdayLoop.raw_induct [where P = "\<lambda>wd m n y. \<exists>i. selected wd i", OF _ assms])
  fix f :: "bool list \<Rightarrow> moment \<Rightarrow> nat \<Rightarrow> (moment \<times> nat) option" and wd m n y
  assume ih: "\<And>wd m n y. f wd m n = Some y \<Longrightarrow> \<exists>i. selected wd i"
    and eq: "(if \<not> selected wd (weekday m) then f wd (addDays m 1) (Suc n) else Some (m, n)) = Some y"
  show "\<exists>i. selected wd i"
  proof (cases "selected wd (weekday m)")
    case True
    then show ?thesis by blast
  next
    case False
    then have "f wd (addDays m 1) (Suc n) = Some y" using eq by simp
    then show ?thesis by (rule ih)
  qed
qed

lemma weekdayLoop_diverges:
  assumes "\<forall>i. \<not> selected wd i"
  shows "weekdayLoop wd m n = None"
proof (cases "weekdayLoop wd m n")
  case None
  then show ?thesis .
next
  case (Some y)
  then show ?thesis using weekdayLoop_Some_selected assms by blast
qed



section \<open>The offset\<close>



section \<open>bootstrap and send\<close>

lemma indexOf_none: "x \<notin> set xs \<Longrightarrow> indexOf xs x = - 1"
  by (induction xs) auto

lemma indexOf_some: "x \<in> set xs \<Longrightarrow> 0 \<le> indexOf xs x"
  by (induction xs) (auto simp: Let_def)

lemma indexOf_iff: "indexOf xs x = - 1 \<longleftrightarrow> x \<notin> set xs"
  using indexOf_none [of x xs] indexOf_some [of x xs] by auto

text \<open>
  Claim C5. When the seven entries of the weekday mask are all false, \<open>bootstrap\<close> returns
  with the node suspended, whatever \<open>config.suspended\<close> holds: it has done what
  \<open>suspend\<close> does, the timers of both events are no longer armed, the status is the grey
  one that names the missing weekdays, and the events, the flag and the messages sent
  are as before.
\<close>

theorem bootstrap_all_false:
  assumes "weekdays st = replicate 7 False"
  shows "\<exists>st'. bootstrap sun rd1 rd2 st = Some (Returned st')
           \<and> st' = suspend (st\<lparr>bootstraps := Suc (bootstraps st)\<rparr>)
           \<and> (\<forall>h. timeout (on_event st) = Some h \<or> timeout (off_event st) = Some h
                  \<longrightarrow> timers st' h = None)
           \<and> last_status st' = Some \<lparr>fill = ''grey'', dot = ''dot'',
                 pieces = [Str ''Scheduling suspended '', Str ''(no weekdays selected) '',
                           Str ''- manual mode only'']\<rparr>
           \<and> on_event st' = on_event st \<and> off_event st' = off_event st
           \<and> suspended st' = suspended st \<and> sent st' = sent st"
proof -
  have idx: "indexOf (weekdays st) True = - 1"
    using assms by (simp add: indexOf_iff)
  have boot: "bootstrap sun rd1 rd2 st
                = Some (Returned (suspend (st\<lparr>bootstraps := Suc (bootstraps st)\<rparr>)))"
    using idx by (simp add: bootstrap_def)
  show ?thesis
    unfolding boot using idx
    by (auto simp: suspend_def clearTimeout_def Let_def split: option.splits)
qed

theorem bootstrap_all_false_witness:
  "weekdays (newNode False noWeekday exampleOn exampleOff) = replicate 7 False
   \<and> (\<exists>st'. bootstrap noSolarTimes (readsAt monday0900) (readsAt monday0900)
                 (newNode False noWeekday exampleOn exampleOff) = Some (Returned st')
          \<and> timers st' = Map.empty \<and> suspended st' = False \<and> bootstraps st' = 1
          \<and> last_status st' = Some \<lparr>fill = ''grey'', dot = ''dot'',
                 pieces = [Str ''Scheduling suspended '', Str ''(no weekdays selected) '',
                           Str ''- manual mode only'']\<rparr>)"
  using bootstrap_all_false [of "newNode False noWeekday exampleOn exampleOff" noSolarTimes
          "readsAt monday0900" "readsAt monday0900"]
  by (simp add: newNode_def noWeekday_def suspend_def clearTimeout_def exampleOn_def
        exampleOff_def setupEvent_def numeral_eq_Suc)

text \<open>
  Claim C10. While \<open>config.suspended\<close> is false, \<open>send\<close> needs the moment of the inverse
  event: when that moment is undefined, \<open>send\<close> passes the message to \<open>node.send\<close> and
  then throws a TypeError while it builds the status text, so no status is published and
  the call does not return.
\<close>

theorem send_needs_inverse_moment:
  assumes "\<not> suspended st" and "moment (event_of (inverse_of e) st) = None"
  shows "send e manual st =
           Threw TypeError (st\<lparr>sent := sent st @ [(topic (event_of e st), payload (event_of e st))]\<rparr>)"
  using assms by (cases e) (simp_all add: send_def Let_def)

theorem send_needs_inverse_moment_witness:
  "\<not> suspended (newNode False everyDay exampleOn (exampleOff\<lparr>time := ''sunrize''\<rparr>))
   \<and> moment (event_of (inverse_of On) (newNode False everyDay exampleOn (exampleOff\<lparr>time := ''sunrize''\<rparr>))) = None
   \<and> send On False (newNode False everyDay exampleOn (exampleOff\<lparr>time := ''sunrize''\<rparr>))
       = Threw TypeError
           ((newNode False everyDay exampleOn (exampleOff\<lparr>time := ''sunrize''\<rparr>))\<lparr>sent := [(''lamp'', ''1'')]\<rparr>)"
  using send_needs_inverse_moment [of "newNode False everyDay exampleOn (exampleOff\<lparr>time := ''sunrize''\<rparr>)" On False]
  by (simp add: newNode_def exampleOn_def exampleOff_def setupEvent_def)

section \<open>Running the node on the examples\<close>

lemma weekdayLoop_stop: "selected wd (weekday m) \<Longrightarrow> weekdayLoop wd m n = Some (m, n)"
  by (subst weekdayLoop.simps) simp

lemma weekdayLoop_go:
  "\<not> selected wd (weekday m) \<Longrightarrow> weekdayLoop wd m n = weekdayLoop wd (addDays m 1) (Suc n)"
  by (subst weekdayLoop.simps) simp

lemmas moment_defs = hour_def minute_def seconds0_def weekday_def addDays_def addMinutes_def
  isAfter_def isBefore_def diff_def

lemmas clock_defs = isDigit_def matchHere_def digitVal_def toNat_def

lemmas example_defs = exampleOn_def exampleOff_def setupEvent_def newNode_def noWeekday_def
  mondayOnly_def everyDay_def noSolarTimes_def readsAt_def monday0700_def monday0900_def
  monday0800_def tuesday0800_def monday0815_def monday2000_def randomOn_def armedRandom_def
  exampleBuiltins_def
  toUpperCase_def toLowerCase_def upperLetters_def lowerLetters_def

lemmas schedule_defs = schedule_def computeNext_def candidate_def resolve_def applyOffset_def
  adjustment_def selected_def rollover_def setTimeout_def clearTimeout_def

lemmas handler_defs = input_def finish_def eachProp_def stringCallback_def objectCallback_def
  setProp_def setSuspended_def execProp_def valueAfter_def startsWith_def isSpace_def
  isLineEnd_def toBoolean_def

text \<open>
  Claim C1, on the code. The mask selects Monday only, the on time is 08:00 and the node
  is scheduled on Monday 2024-01-01 at 09:00. The loop of line 154 accepts Monday 08:00;
  line 159 then adds a day, since 09:00 is after it, and nothing looks at the mask again:
  the moment \<open>schedule\<close> leaves is Tuesday 08:00, weekday 2, which the mask does not select.
\<close>

theorem schedule_rollover_leaves_mask:
  "\<exists>st'. schedule noSolarTimes (readsAt monday0900) On True
            (newNode False mondayOnly exampleOn exampleOff) = Some st'
         \<and> moment (on_event st') = Some tuesday0800
         \<and> weekday tuesday0800 = 2
         \<and> \<not> selected mondayOnly (weekday tuesday0800)"
  by (simp add: schedule_defs clock_defs moment_defs example_defs
      weekdayLoop_stop weekdayLoop_go Let_def)

text \<open>
  Claim C3, on the code. The node is started on Monday at 07:00 with every weekday
  selected, so the on event holds the moment Monday 08:00 and timer 1. At 09:00 the
  message \<open>ontime sunrize\<close> arrives; \<open>sunrize\<close> is no clock time and no key of the solar
  times. \<open>schedule\<close> finds the moment of the earlier pass still in \<open>event.moment\<close>, takes
  it for the resolved one and arms timer 3 for Tuesday 08:00; the status is the yellow
  one of \<open>resume\<close>, not \<open>Invalid time\<close>.
\<close>

theorem schedule_keeps_stale_moment:
  "\<exists>st1 st2.
      bootstrap noSolarTimes (readsAt monday0700) (readsAt monday0700)
        (newNode False everyDay exampleOn exampleOff) = Some (Returned st1)
    \<and> moment (on_event st1) = Some monday0800 \<and> timeout (on_event st1) = Some 1
    \<and> input exampleBuiltins noSolarTimes (readsAt monday0900) (readsAt monday0900)
          (PString ''ontime sunrize'') st1 = Some (Returned st2)
    \<and> time (on_event st2) = ''sunrize''
    \<and> execClock ''sunrize'' = None \<and> noSolarTimes monday0900 ''sunrize'' = None
    \<and> moment (on_event st2) = Some tuesday0800
    \<and> timeout (on_event st2) = Some 3
    \<and> timers st2 3 = Some (On, 23 * msPerHour)
    \<and> last_status st2 = Some \<lparr>fill = ''yellow'', dot = ''dot'',
          pieces = [Str ''OFF'', Str '' '', Formatted (monday0800 + 12 * msPerHour), Str '', '',
                    Str ''ON'', Str '' '', Formatted tuesday0800]\<rparr>"
  by (simp add: handler_defs bootstrap_def resume_def schedule_defs clock_defs moment_defs
      example_defs weekdayLoop_stop weekdayLoop_go Let_def suspend_def numeral_2_eq_2 numeral_3_eq_3)

text \<open>What a manual request does in any state: the message goes out and nothing but the
  messages sent and the status changes; the manual status is published when
  \<open>config.suspended\<close> is true or the inverse event holds a moment, and otherwise \<open>send\<close>
  throws and the status stays.\<close>

lemma manual_fire:
  "\<exists>out. input js sun rd1 rd2 (PString (eventName e)) st = Some out
      \<and> out = send e True st
      \<and> sent (state_of out) = sent st @ [(topic (event_of e st), payload (event_of e st))]
      \<and> timers (state_of out) = timers st \<and> next_timer (state_of out) = next_timer st
      \<and> on_event (state_of out) = on_event st \<and> off_event (state_of out) = off_event st
      \<and> suspended (state_of out) = suspended st \<and> weekdays (state_of out) = weekdays st
      \<and> bootstraps (state_of out) = bootstraps st
      \<and> (if suspended st \<or> moment (event_of (inverse_of e) st) \<noteq> None
          then \<exists>tl. out = Returned (state_of out)
                 \<and> last_status (state_of out)
                     = Some \<lparr>fill = ''blue'', dot = shape (event_of e st),
                             pieces = Str (name (event_of e st)) # Str '' manual'' # tl\<rparr>
          else out = Threw TypeError (state_of out)
                 \<and> last_status (state_of out) = last_status st)"
  by (cases e) (auto simp: input_def send_def Let_def split: option.splits)

text \<open>
  Claim C9, on the code. No weekday is selected and \<open>config.suspended\<close> is false:
  \<open>bootstrap\<close> suspends the node, whose status then reads \<open>manual mode only\<close>, and no
  moment is computed. The manual request \<open>on\<close> passes the message of the on event to
  \<open>node.send\<close> and then throws a TypeError in \<open>send\<close>, which tests \<open>config.suspended\<close>
  alone: no manual status is published, the grey status stays.
\<close>

theorem manual_fire_throws_without_weekdays:
  "\<exists>st1. bootstrap noSolarTimes (readsAt monday0700) (readsAt monday0700)
            (newNode False noWeekday exampleOn exampleOff) = Some (Returned st1)
     \<and> input exampleBuiltins noSolarTimes (readsAt monday0900) (readsAt monday0900)
          (PString ''on'') st1
        = Some (Threw TypeError (st1\<lparr>sent := [(''lamp'', ''1'')]\<rparr>))
     \<and> last_status (st1\<lparr>sent := [(''lamp'', ''1'')]\<rparr>) = Some \<lparr>fill = ''grey'', dot = ''dot'',
                 pieces = [Str ''Scheduling suspended '', Str ''(no weekdays selected) '',
                           Str ''- manual mode only'']\<rparr>"
  by (simp add: bootstrap_def suspend_def clearTimeout_def example_defs input_def send_def Let_def)

section \<open>Resolving the time\<close>















section \<open>The moment schedule leaves\<close>

lemma armedRandom_reached:
  "bootstrap noSolarTimes ((readsAt monday0700)\<lparr>random_read := 1/2\<rparr>) (readsAt monday0700)
     (newNode False everyDay randomOn exampleOff) = Some (Returned armedRandom)"
  by (simp add: bootstrap_def resume_def schedule_defs clock_defs moment_defs example_defs
      weekdayLoop_stop weekdayLoop_go Let_def numeral_2_eq_2)







section \<open>Reconfiguration\<close>






















































end
